theory Spec2Isabelle
  imports Main
begin

section \<open>Go standard-library values used by the builder\<close>

subsection \<open>Strings and paths\<close>

text \<open>
  Go strings are byte sequences, so they are \<^typ>\<open>string\<close> here. The path functions are those
  of \<^verbatim>\<open>path/filepath\<close> on a Unix host: the separator is the slash and there are no
  volume names.
\<close>

definition HasPrefix :: "string \<Rightarrow> string \<Rightarrow> bool" where
  \<comment> \<open>\<^verbatim>\<open>strings.HasPrefix(s, prefix)\<close>\<close>
  "HasPrefix s p \<longleftrightarrow> length p \<le> length s \<and> take (length p) s = p"

fun split_sep :: "string \<Rightarrow> string list" where
  \<comment> \<open>the elements of a path between its separators, empty ones included\<close>
  "split_sep [] = [[]]"
| "split_sep (c # cs) =
     (if c = CHR ''/'' then [] # split_sep cs
      else (case split_sep cs of [] \<Rightarrow> [[c]] | x # xs \<Rightarrow> (c # x) # xs))"

fun join_sep :: "string list \<Rightarrow> string" where
  \<comment> \<open>\<^verbatim>\<open>strings.Join(elems, "/")\<close>\<close>
  "join_sep [] = []"
| "join_sep [x] = x"
| "join_sep (x # y # ys) = x @ ''/'' @ join_sep (y # ys)"

definition clean_step :: "bool \<Rightarrow> string list \<Rightarrow> string \<Rightarrow> string list" where
  \<comment> \<open>one element of the loop of \<^verbatim>\<open>filepath.Clean\<close>; the output so far is kept as a stack\<close>
  "clean_step rooted out c =
     (if c = [] \<or> c = ''.'' then out
      else if c = ''..'' then
        (case out of
           [] \<Rightarrow> (if rooted then [] else [''..''])
         | el # rest \<Rightarrow> (if el = ''..'' then ''..'' # out else rest))
      else c # out)"

definition Clean :: "string \<Rightarrow> string" where
  \<comment> \<open>\<^verbatim>\<open>filepath.Clean\<close>\<close>
  "Clean path =
     (if path = [] then ''.''
      else
        (let rooted = (hd path = CHR ''/'');
             body = join_sep (rev (foldl (clean_step rooted) [] (split_sep path)))
         in if rooted then CHR ''/'' # body
            else if body = [] then ''.'' else body))"

definition Join :: "string list \<Rightarrow> string" where
  \<comment> \<open>\<^verbatim>\<open>filepath.Join(elem...)\<close>: leading empty elements are skipped, the rest is joined and cleaned\<close>
  "Join elem =
     (case dropWhile (\<lambda>e. e = []) elem of
        [] \<Rightarrow> []
      | e # es \<Rightarrow> Clean (join_sep (e # es)))"

definition Base :: "string \<Rightarrow> string" where
  \<comment> \<open>\<^verbatim>\<open>filepath.Base\<close>\<close>
  "Base path =
     (if path = [] then ''.''
      else
        (let stripped = rev (dropWhile (\<lambda>c. c = CHR ''/'') (rev path));
             lastElem = rev (takeWhile (\<lambda>c. c \<noteq> CHR ''/'') (rev stripped))
         in if lastElem = [] then ''/'' else lastElem))"

definition Dir :: "string \<Rightarrow> string" where
  \<comment> \<open>\<^verbatim>\<open>filepath.Dir\<close>: everything up to the last separator, cleaned\<close>
  "Dir path = Clean (rev (dropWhile (\<lambda>c. c \<noteq> CHR ''/'') (rev path)))"

subsection \<open>Time\<close>

text \<open>
  A \<^verbatim>\<open>time.Time\<close> without monotonic reading is an instant on a line; it is counted
  here in nanoseconds from Go's zero time (January 1 of year 1, UTC). Go represents
  instants before the zero time as well, so the type is \<^typ>\<open>int\<close>.
\<close>

type_synonym time = int

definition zeroTime :: time where
  \<comment> \<open>\<^verbatim>\<open>time.Time{}\<close>\<close>
  "zeroTime = 0"

definition IsZero :: "time \<Rightarrow> bool" where
  "IsZero t \<longleftrightarrow> t = 0"

definition Before :: "time \<Rightarrow> time \<Rightarrow> bool" where
  "Before t u \<longleftrightarrow> t < u"

definition After :: "time \<Rightarrow> time \<Rightarrow> bool" where
  "After t u \<longleftrightarrow> t > u"

subsection \<open>Errors, panics and the file system\<close>

datatype error =
    NotExistError string
  | OtherError string
  | ArchiveError string error
  | CommandError string string error
  | JobError string error

fun IsNotExist :: "error \<Rightarrow> bool" where
  \<comment> \<open>\<^verbatim>\<open>os.IsNotExist\<close> on a non-nil error\<close>
  "IsNotExist (NotExistError p) = True"
| "IsNotExist e = False"

datatype 'a outcome = Returns 'a | Panics string

datatype node = Absent | Unreadable error | Present time

datatype event =
    EvStat string
  | EvRemoveAll string
  | EvMkdirAll string
  | EvRename string string
  | EvTempDir string string
  | EvMkdir string
  | EvHeaders string string
  | EvCompiler "string list"
  | EvArchiver string "string list"

text \<open>
  The state the builder acts on: what \<^verbatim>\<open>os.Stat\<close> sees at every path, the clock that
  stamps a created entry, and the calls made so far, oldest first.
\<close>

record world =
  files :: "string \<Rightarrow> node"
  clock :: time
  trace :: "event list"

text \<open>
  What the builder reads from its host and cannot decide itself: the \<^verbatim>\<open>goenv\<close>
  variables, \<^verbatim>\<open>os.TempDir()\<close>, the directory name \<^verbatim>\<open>ioutil.TempDir\<close> picks, and
  whether a call that can fail for reasons outside \<^const>\<open>files\<close> does fail.
\<close>

record host =
  goenv :: "string \<Rightarrow> string"
  osTempDir :: string
  tempDirResult :: "string \<Rightarrow> string \<Rightarrow> error + string"
  mkdirAllFails :: "string \<Rightarrow> error option"
  mkdirFails :: "string \<Rightarrow> error option"
  renameFails :: "string \<Rightarrow> string \<Rightarrow> error option"
  compilerFails :: "string list \<Rightarrow> error option"
  archiverFails :: "string \<Rightarrow> string list \<Rightarrow> error option"

definition logged :: "event \<Rightarrow> world \<Rightarrow> world" where
  "logged e w = w\<lparr>trace := trace w @ [e]\<rparr>"

definition os_Stat :: "string \<Rightarrow> world \<Rightarrow> world \<times> (error + time)" where
  \<comment> \<open>\<^verbatim>\<open>os.Stat\<close>; of the file info only \<^verbatim>\<open>ModTime()\<close> is used\<close>
  "os_Stat p w =
     (logged (EvStat p) w,
      case files w p of
        Absent \<Rightarrow> Inl (NotExistError p)
      | Unreadable e \<Rightarrow> Inl e
      | Present t \<Rightarrow> Inr t)"

definition os_RemoveAll :: "string \<Rightarrow> world \<Rightarrow> world" where
  \<comment> \<open>\<^verbatim>\<open>os.RemoveAll\<close>: the path and everything below it; the caller drops its error\<close>
  "os_RemoveAll p w =
     (logged (EvRemoveAll p) w)
       \<lparr>files := (\<lambda>q. if q = p \<or> HasPrefix q (p @ ''/'') then Absent else files w q)\<rparr>"

definition os_MkdirAll :: "host \<Rightarrow> string \<Rightarrow> world \<Rightarrow> world \<times> error option" where
  "os_MkdirAll h dir w =
     (case mkdirAllFails h dir of
        Some e \<Rightarrow> (logged (EvMkdirAll dir) w, Some e)
      | None \<Rightarrow>
          ((logged (EvMkdirAll dir) w)
             \<lparr>files := (case files w dir of
                          Present t \<Rightarrow> files w
                        | _ \<Rightarrow> (files w)(dir := Present (clock w)))\<rparr>,
           None))"

definition os_Rename :: "host \<Rightarrow> string \<Rightarrow> string \<Rightarrow> world \<Rightarrow> world \<times> error option" where
  \<comment> \<open>\<^verbatim>\<open>os.Rename\<close>: the entry moves with what is below it and keeps its time\<close>
  "os_Rename h old new w =
     (case files w old of
        Absent \<Rightarrow> (logged (EvRename old new) w, Some (NotExistError old))
      | _ \<Rightarrow>
        (case renameFails h old new of
           Some e \<Rightarrow> (logged (EvRename old new) w, Some e)
         | None \<Rightarrow>
             ((logged (EvRename old new) w)
                \<lparr>files := (\<lambda>q. if q = new then files w old
                                else if HasPrefix q (new @ ''/'')
                                  then files w (old @ drop (length new) q)
                                else if q = old \<or> HasPrefix q (old @ ''/'') then Absent
                                else files w q)\<rparr>,
              None)))"

section \<open>The build cache (builder/buildcache.go)\<close>

fun cacheTimestamp_loop :: "string list \<Rightarrow> time \<Rightarrow> world \<Rightarrow> world \<times> time \<times> error option" where
  \<comment> \<open>the \<^verbatim>\<open>for\<close> loop of \<^verbatim>\<open>cacheTimestamp\<close>, with the variable \<^verbatim>\<open>timestamp\<close> as accumulator\<close>
  "cacheTimestamp_loop [] timestamp w = (w, timestamp, None)"
| "cacheTimestamp_loop (path # paths) timestamp w =
     (case os_Stat path w of
        (w', Inl err) \<Rightarrow> (w', zeroTime, Some err)
      | (w', Inr modTime) \<Rightarrow>
          if IsZero timestamp then cacheTimestamp_loop paths modTime w'
          else if Before timestamp modTime then cacheTimestamp_loop paths modTime w'
          else cacheTimestamp_loop paths timestamp w')"

definition cacheTimestamp :: "string list \<Rightarrow> world \<Rightarrow> world \<times> time \<times> error option" where
  "cacheTimestamp paths w = cacheTimestamp_loop paths zeroTime w"

definition cacheLoad :: "host \<Rightarrow> string \<Rightarrow> string list \<Rightarrow> world \<Rightarrow> world \<times> string \<times> error option" where
  "cacheLoad h name sourceFiles w =
     (let cachepath = Join [goenv h ''GOCACHE'', name] in
      case os_Stat cachepath w of
        (w1, Inl err) \<Rightarrow>
          if IsNotExist err then (w1, [], None)
          else (w1, [], Some err)
      | (w1, Inr cacheModTime) \<Rightarrow>
          (case cacheTimestamp sourceFiles w1 of
             (w2, _, Some err) \<Rightarrow> (w2, [], Some err)
           | (w2, sourceTimestamp, None) \<Rightarrow>
               if After cacheModTime sourceTimestamp then (w2, cachepath, None)
               else (os_RemoveAll cachepath w2, [], None)))"

definition cacheStore ::
  "host \<Rightarrow> string \<Rightarrow> string \<Rightarrow> string list \<Rightarrow> world \<Rightarrow> world \<times> (string \<times> error option) outcome" where
  "cacheStore h tmppath name sourceFiles w =
     (if length sourceFiles = 0 then (w, Panics ''cache: no source files'')
      else
        (let dir = goenv h ''GOCACHE'' in
         case os_MkdirAll h dir w of
           (w1, Some err) \<Rightarrow> (w1, Returns ([], Some err))
         | (w1, None) \<Rightarrow>
             (let cachepath = Join [dir, name] in
              case os_Rename h tmppath cachepath w1 of
                (w2, Some err) \<Rightarrow> (w2, Returns ([], Some err))
              | (w2, None) \<Rightarrow> (w2, Returns (cachepath, None)))))"


section \<open>Libraries and their build jobs (builder/library.go)\<close>

record Library =
  name :: string
  makeHeaders :: "(string \<Rightarrow> string \<Rightarrow> error option) option"
  cflags :: "string \<Rightarrow> string \<Rightarrow> string list"
  sourceDir :: string
  librarySources :: "string \<Rightarrow> string list"
  crt1Source :: string

text \<open>
  \<^verbatim>\<open>compileopts.Config\<close> is declared outside these files; the three accessors
  that \<^verbatim>\<open>load\<close> calls are its fields here.
\<close>

record Config =
  LibcPath :: "string \<Rightarrow> string \<times> bool"
  Triple :: string
  CPU :: string

text \<open>
  The \<^verbatim>\<open>run\<close> field of a job is a closure. Each of the three closures that
  \<^verbatim>\<open>load\<close> builds is a constructor here, holding the variables the closure
  captures; \<open>runAction\<close> below is their bodies.
\<close>

datatype action =
    ArchiveRun (arOuttmpdir: string) (arObjs: "string list") (arOutname: string)
      (arLibrary: Library) (arTarget: string)
  | HeadersRun (hdrIncludeDir: string) (hdrLibrary: Library) (hdrTarget: string)
  | CompileRun (ccArgs: "string list") (ccObjpath: string) (ccSrcpath: string)

datatype compileJob =
  CompileJob (description: string) (result: string) (dependencies: "compileJob list")
    (run: "action option")

definition dummyCompileJob :: "string \<Rightarrow> compileJob" where
  \<comment> \<open>Modelled from the spec: \<^verbatim>\<open>dummyCompileJob\<close> is declared in builder/jobs.go, which is
      not among the files. The spec's pass-through node: a result path, no action, and
      nothing it depends on.\<close>
  "dummyCompileJob path = CompileJob [] path [] None"

definition fullPath :: "host \<Rightarrow> Library \<Rightarrow> string" where
  "fullPath h l = Join [goenv h ''TINYGOROOT'', sourceDir l]"

definition sourcePaths :: "host \<Rightarrow> Library \<Rightarrow> string \<Rightarrow> string list" where
  "sourcePaths h l target =
     (let sources = librarySources l target;
          sources = (if crt1Source l \<noteq> [] then [crt1Source l] @ sources else sources)
      in map (\<lambda>nm. Join [fullPath h l, nm]) sources)"

subsection \<open>Calls out of the builder\<close>

definition ioutil_TempDir :: "host \<Rightarrow> string \<Rightarrow> string \<Rightarrow> world \<Rightarrow> world \<times> (error + string)" where
  "ioutil_TempDir h dir pattern w =
     (case tempDirResult h dir pattern of
        Inl e \<Rightarrow> (logged (EvTempDir dir pattern) w, Inl e)
      | Inr created \<Rightarrow>
          ((logged (EvTempDir dir pattern) w)\<lparr>files := (files w)(created := Present (clock w))\<rparr>,
           Inr created))"

definition os_Mkdir :: "host \<Rightarrow> string \<Rightarrow> world \<Rightarrow> world \<times> error option" where
  "os_Mkdir h dir w =
     (case files w dir of
        Absent \<Rightarrow>
          (case mkdirFails h dir of
             Some e \<Rightarrow> (logged (EvMkdir dir) w, Some e)
           | None \<Rightarrow>
               ((logged (EvMkdir dir) w)\<lparr>files := (files w)(dir := Present (clock w))\<rparr>, None))
      | _ \<Rightarrow> (logged (EvMkdir dir) w, Some (OtherError ''file exists'')))"

definition makeArchive :: "host \<Rightarrow> string \<Rightarrow> string list \<Rightarrow> world \<Rightarrow> world \<times> error option" where
  \<comment> \<open>Modelled from the spec: \<^verbatim>\<open>makeArchive\<close> is declared in another file of the package. The
      spec's archiver invocation: called with the archive path and the ordered object
      paths, it answers success or failure.\<close>
  "makeArchive h path objs w = (logged (EvArchiver path objs) w, archiverFails h path objs)"

definition runCCompiler :: "host \<Rightarrow> string list \<Rightarrow> world \<Rightarrow> world \<times> error option" where
  \<comment> \<open>Modelled from the spec: \<^verbatim>\<open>runCCompiler\<close> is declared in another file of the package.
      The spec's compiler invocation: called with an argument list, it answers success or
      failure.\<close>
  "runCCompiler h args w = (logged (EvCompiler args) w, compilerFails h args)"

subsection \<open>The bodies of the job closures\<close>

fun runAction :: "host \<Rightarrow> action \<Rightarrow> world \<Rightarrow> world \<times> error option outcome" where
  "runAction h (ArchiveRun outtmpdir objs outname l target) w =
     (case makeArchive h (Join [outtmpdir, ''lib.a'']) objs w of
        (w1, Some err) \<Rightarrow> (w1, Returns (Some (ArchiveError target err)))
      | (w1, None) \<Rightarrow>
          (case cacheStore h outtmpdir outname (sourcePaths h l target) w1 of
             (w2, Panics msg) \<Rightarrow> (w2, Panics msg)
           | (w2, Returns (_, err)) \<Rightarrow> (w2, Returns err)))"
| "runAction h (HeadersRun includeDir l target) w =
     (case os_Mkdir h includeDir w of
        (w1, Some err) \<Rightarrow> (w1, Returns (Some err))
      | (w1, None) \<Rightarrow>
          (case makeHeaders l of
             None \<Rightarrow> (w1, Panics ''nil func'')
           | Some mk \<Rightarrow> (logged (EvHeaders target includeDir) w1, Returns (mk target includeDir))))"
| "runAction h (CompileRun args objpath srcpath) w =
     (let compileArgs = [] @ args;
          compileArgs = compileArgs @ [''-o'', objpath, srcpath]
      in case runCCompiler h compileArgs w of
           (w1, Some err) \<Rightarrow> (w1, Returns (Some (CommandError ''failed to build'' srcpath err)))
         | (w1, None) \<Rightarrow> (w1, Returns None))"

subsection \<open>The scheduler\<close>

text \<open>
  Modelled from the spec: \<^verbatim>\<open>runJobs\<close> is declared in builder/jobs.go, which is not among
  the files. Of the schedules the spec allows this is the sequential one: a node's
  dependencies run first, in list order; a node met again is not run again; a node without
  action succeeds at once; the first error ends the run and is returned wrapped with the
  description of the node that failed. A panic in an action ends the program.
\<close>

fun runJob :: "host \<Rightarrow> compileJob \<Rightarrow> compileJob list \<times> world
    \<Rightarrow> (compileJob list \<times> world) \<times> error option outcome"
  and runJobList :: "host \<Rightarrow> compileJob list \<Rightarrow> compileJob list \<times> world
    \<Rightarrow> (compileJob list \<times> world) \<times> error option outcome" where
  "runJob h (CompileJob d r deps act) (done, w) =
     (if CompileJob d r deps act \<in> set done then ((done, w), Returns None)
      else
        (case runJobList h deps (done, w) of
           ((done1, w1), Returns None) \<Rightarrow>
             (case act of
                None \<Rightarrow> ((CompileJob d r deps act # done1, w1), Returns None)
              | Some a \<Rightarrow>
                  (case runAction h a w1 of
                     (w2, Returns (Some err)) \<Rightarrow>
                       ((CompileJob d r deps act # done1, w2), Returns (Some (JobError d err)))
                   | (w2, out) \<Rightarrow> ((CompileJob d r deps act # done1, w2), out)))
         | failed \<Rightarrow> failed))"
| "runJobList h [] st = (st, Returns None)"
| "runJobList h (j # js) st =
     (case runJob h j st of
        (st1, Returns None) \<Rightarrow> runJobList h js st1
      | failed \<Rightarrow> failed)"

definition runJobs :: "host \<Rightarrow> compileJob \<Rightarrow> world \<Rightarrow> world \<times> error option outcome" where
  "runJobs h job w = (case runJob h job ([], w) of ((_, w1), out) \<Rightarrow> (w1, out))"

subsection \<open>Building the job graph\<close>

definition libraryArgs ::
  "Library \<Rightarrow> string \<Rightarrow> string \<Rightarrow> string \<Rightarrow> string \<Rightarrow> string \<Rightarrow> string list" where
  \<comment> \<open>the variable \<^verbatim>\<open>args\<close> of \<^verbatim>\<open>load\<close>, assignment by assignment\<close>
  "libraryArgs l target cpu outtmpdir dir remapDir =
     (let args = cflags l target outtmpdir @
            [''-c'', ''-Oz'', ''-g'', ''-ffunction-sections'', ''-fdata-sections'',
             ''-Wno-macro-redefined'', ''--target='' @ target,
             ''-fdebug-prefix-map='' @ dir @ ''='' @ remapDir];
          args = (if cpu \<noteq> [] then args @ [''-mcpu='' @ cpu] else args);
          args = (if HasPrefix target ''arm'' \<or> HasPrefix target ''thumb''
                  then args @ [''-fshort-enums'', ''-fomit-frame-pointer'', ''-mfloat-abi=soft'']
                  else args);
          args = (if HasPrefix target ''riscv32-''
                  then args @ [''-march=rv32imac'', ''-mabi=ilp32'', ''-fforce-enable-int128'']
                  else args);
          args = (if HasPrefix target ''riscv64-''
                  then args @ [''-march=rv64gc'', ''-mabi=lp64'']
                  else args)
      in args)"

fun compileLoop ::
  "Library \<Rightarrow> string \<Rightarrow> string list \<Rightarrow> compileJob list \<Rightarrow> string list
    \<Rightarrow> string list \<times> compileJob list \<Rightarrow> string list \<times> compileJob list" where
  \<comment> \<open>the loop over \<^verbatim>\<open>l.librarySources(target)\<close>; the pair is \<^verbatim>\<open>objs\<close> and
      \<^verbatim>\<open>job.dependencies\<close>\<close>
  "compileLoop l dir args compileDependencies [] (objs, deps) = (objs, deps)"
| "compileLoop l dir args compileDependencies (path # paths) (objs, deps) =
     (let srcpath = Join [sourceDir l, path];
          objpath = Join [dir, Base srcpath @ ''.o'']
      in compileLoop l dir args compileDependencies paths
           (objs @ [objpath],
            deps @ [CompileJob (''compile '' @ srcpath) [] compileDependencies
                      (Some (CompileRun args objpath srcpath))]))"

definition libraryJob ::
  "host \<Rightarrow> Library \<Rightarrow> string \<Rightarrow> string \<Rightarrow> string \<Rightarrow> string \<Rightarrow> string list \<Rightarrow> compileJob" where
  \<comment> \<open>\<^verbatim>\<open>load\<close> from the archive job to its last line. The archive closure reads
      \<^verbatim>\<open>objs\<close> when it runs, which is after the loop has filled it.\<close>
  "libraryJob h l target outname outtmpdir dir args =
     (let includeDir = Join [outtmpdir, ''include''];
          compileDependencies =
            (if makeHeaders l \<noteq> None
             then [CompileJob (''headers '' @ name l @ ''/include'') [] []
                     (Some (HeadersRun includeDir l target))]
             else []);
          (objs, deps) =
            compileLoop l dir args compileDependencies (librarySources l target) ([], []);
          deps =
            (if crt1Source l \<noteq> [] then
               (let srcpath = Join [sourceDir l, crt1Source l];
                    objpath = Join [outtmpdir, ''crt1.o'']
                in deps @ [CompileJob (''compile '' @ srcpath) [] compileDependencies
                             (Some (CompileRun args objpath srcpath))])
             else deps)
      in CompileJob (''ar '' @ name l @ ''/lib.a'')
           (Join [goenv h ''GOCACHE'', outname, ''lib.a'']) deps
           (Some (ArchiveRun outtmpdir objs outname l target)))"

definition load :: "host \<Rightarrow> Library \<Rightarrow> Config \<Rightarrow> string \<Rightarrow> world \<Rightarrow> world \<times> (error + compileJob)" where
  "load h l config tmpdir w =
     (case LibcPath config (name l) of
        (outdir, precompiled) \<Rightarrow>
          if precompiled then (w, Inr (dummyCompileJob outdir))
          else
            (let outname = Base outdir;
                 target = Triple config
             in case cacheLoad h outname (sourcePaths h l target) w of
                  (w1, path, err) \<Rightarrow>
                    if path \<noteq> [] \<or> err \<noteq> None
                    then (w1, Inr (dummyCompileJob (Join [path, ''lib.a''])))
                    else
                      (case ioutil_TempDir h (goenv h ''GOCACHE'') (outname @ ''.tmp*'') w1 of
                         (w2, Inl err) \<Rightarrow> (w2, Inl err)
                       | (w2, Inr outtmpdir) \<Rightarrow>
                           (let remapDir = Join [osTempDir h, ''tinygo-'' @ name l];
                                dir = Join [tmpdir, ''build-lib-'' @ name l]
                            in case os_Mkdir h dir w2 of
                                 (w3, Some err) \<Rightarrow> (w3, Inl err)
                               | (w3, None) \<Rightarrow>
                                   (w3, Inr (libraryJob h l target outname outtmpdir dir
                                     (libraryArgs l target (CPU config) outtmpdir dir remapDir)))))))"

definition Load ::
  "host \<Rightarrow> Library \<Rightarrow> Config \<Rightarrow> string \<Rightarrow> world \<Rightarrow> world \<times> (string \<times> error option) outcome" where
  "Load h l config tmpdir w =
     (case load h l config tmpdir w of
        (w1, Inl err) \<Rightarrow> (w1, Returns ([], Some err))
      | (w1, Inr job) \<Rightarrow>
          (case runJobs h job w1 of
             (w2, Panics msg) \<Rightarrow> (w2, Panics msg)
           | (w2, Returns err) \<Rightarrow> (w2, Returns (Dir (result job), err))))"


subsection \<open>Reading a job graph\<close>

definition isArchive :: "compileJob \<Rightarrow> bool" where
  "isArchive j = (case run j of Some (ArchiveRun _ _ _ _ _) \<Rightarrow> True | _ \<Rightarrow> False)"

definition isHeaders :: "compileJob \<Rightarrow> bool" where
  "isHeaders j = (case run j of Some (HeadersRun _ _ _) \<Rightarrow> True | _ \<Rightarrow> False)"

definition isCompile :: "compileJob \<Rightarrow> bool" where
  "isCompile j = (case run j of Some (CompileRun _ _ _) \<Rightarrow> True | _ \<Rightarrow> False)"

definition compiledSource :: "compileJob \<Rightarrow> string" where
  \<comment> \<open>the source file a compile job hands to the compiler\<close>
  "compiledSource j = (case run j of Some (CompileRun _ _ srcpath) \<Rightarrow> srcpath | _ \<Rightarrow> [])"

definition compiledObject :: "compileJob \<Rightarrow> string" where
  \<comment> \<open>the object file a compile job asks the compiler for\<close>
  "compiledObject j = (case run j of Some (CompileRun _ objpath _) \<Rightarrow> objpath | _ \<Rightarrow> [])"

definition compilerFlags :: "compileJob \<Rightarrow> string list" where
  "compilerFlags j = (case run j of Some (CompileRun args _ _) \<Rightarrow> args | _ \<Rightarrow> [])"

subsection \<open>The flag list in the words of the specification\<close>

definition baseFlags :: "Library \<Rightarrow> string \<Rightarrow> string \<Rightarrow> string \<Rightarrow> string \<Rightarrow> string list" where
  \<comment> \<open>the library's own flags, the fixed flags, the target and the path remapping\<close>
  "baseFlags l target outtmpdir dir remapDir =
     cflags l target outtmpdir @
       [''-c'', ''-Oz'', ''-g'', ''-ffunction-sections'', ''-fdata-sections'',
        ''-Wno-macro-redefined'', ''--target='' @ target,
        ''-fdebug-prefix-map='' @ dir @ ''='' @ remapDir]"

definition cpuFlag :: "string \<Rightarrow> string list" where
  "cpuFlag cpu = (if cpu = [] then [] else [''-mcpu='' @ cpu])"

definition abiFlags :: "string \<Rightarrow> string list" where
  \<comment> \<open>the table keyed by triple prefix\<close>
  "abiFlags target =
     (if HasPrefix target ''arm'' \<or> HasPrefix target ''thumb''
      then [''-fshort-enums'', ''-fomit-frame-pointer'', ''-mfloat-abi=soft''] else []) @
     (if HasPrefix target ''riscv32-''
      then [''-march=rv32imac'', ''-mabi=ilp32'', ''-fforce-enable-int128''] else []) @
     (if HasPrefix target ''riscv64-''
      then [''-march=rv64gc'', ''-mabi=lp64''] else [])"

subsection \<open>The loop of \<^const>\<open>libraryJob\<close> in closed form\<close>

definition objectFor :: "Library \<Rightarrow> string \<Rightarrow> string \<Rightarrow> string" where
  "objectFor l dir path = Join [dir, Base (Join [sourceDir l, path]) @ ''.o'']"

definition compileJobFor :: "Library \<Rightarrow> string \<Rightarrow> string list \<Rightarrow> compileJob list \<Rightarrow> string \<Rightarrow> compileJob" where
  "compileJobFor l dir args hdrs path =
     CompileJob (''compile '' @ Join [sourceDir l, path]) [] hdrs
       (Some (CompileRun args (objectFor l dir path) (Join [sourceDir l, path])))"

definition headerJobs :: "Library \<Rightarrow> string \<Rightarrow> string \<Rightarrow> compileJob list" where
  "headerJobs l target outtmpdir =
     (if makeHeaders l \<noteq> None
      then [CompileJob (''headers '' @ name l @ ''/include'') [] []
              (Some (HeadersRun (Join [outtmpdir, ''include'']) l target))]
      else [])"

definition crt1Jobs :: "Library \<Rightarrow> string \<Rightarrow> string list \<Rightarrow> compileJob list \<Rightarrow> compileJob list" where
  "crt1Jobs l outtmpdir args hdrs =
     (if crt1Source l \<noteq> []
      then [CompileJob (''compile '' @ Join [sourceDir l, crt1Source l]) [] hdrs
              (Some (CompileRun args (Join [outtmpdir, ''crt1.o'']) (Join [sourceDir l, crt1Source l])))]
      else [])"

subsection \<open>Reading a trace\<close>

fun archiverCalls :: "event list \<Rightarrow> (string \<times> string list) list" where
  "archiverCalls [] = []"
| "archiverCalls (EvArchiver path objs # es) = (path, objs) # archiverCalls es"
| "archiverCalls (e # es) = archiverCalls es"

fun compilerCalls :: "event list \<Rightarrow> string list list" where
  "compilerCalls [] = []"
| "compilerCalls (EvCompiler args # es) = args # compilerCalls es"
| "compilerCalls (e # es) = compilerCalls es"

section \<open>Concrete hosts, file systems and libraries\<close>

definition exHost :: host where
  "exHost =
     \<lparr>goenv = (\<lambda>v. if v = ''GOCACHE'' then ''/cache''
                    else if v = ''TINYGOROOT'' then ''/tinygo'' else []),
      osTempDir = ''/tmp'',
      tempDirResult =
        (\<lambda>dir pattern. Inr (Join [dir, takeWhile (\<lambda>c. c \<noteq> CHR ''*'') pattern @ ''42''])),
      mkdirAllFails = (\<lambda>dir. None),
      mkdirFails = (\<lambda>dir. None),
      renameFails = (\<lambda>old new. None),
      compilerFails = (\<lambda>args. None),
      archiverFails = (\<lambda>path objs. None)\<rparr>"

definition exWorld :: world where
  \<comment> \<open>a finished temporary directory, a source file, no cache entry yet\<close>
  "exWorld =
     \<lparr>files = (\<lambda>p. if p = ''/cache'' then Present 40
                    else if p = ''/cache/x.tmp42'' then Present 100
                    else if p = ''/src/a.c'' then Present 50
                    else Absent),
      clock = 100,
      trace = []\<rparr>"

definition cachedWorld :: world where
  \<comment> \<open>a cache entry and no temporary directory\<close>
  "cachedWorld =
     \<lparr>files = (\<lambda>p. if p = ''/cache'' then Present 40
                    else if p = ''/cache/x'' then Present 100
                    else if p = ''/src/a.c'' then Present 50
                    else Absent),
      clock = 200,
      trace = []\<rparr>"

definition backdatedWorld :: world where
  \<comment> \<open>every file is stamped at or before Go's zero time; the first source at the zero time\<close>
  "backdatedWorld =
     \<lparr>files = (\<lambda>p. if p = ''/cache'' then Present (- 2)
                    else if p = ''/cache/x'' then Present (- 3)
                    else if p = ''/src/a.c'' then Present 0
                    else if p = ''/src/b.c'' then Present (- 5)
                    else Absent),
      clock = 200,
      trace = []\<rparr>"

definition freshWorld :: world where
  \<comment> \<open>an empty cache directory and the caller's scratch directory\<close>
  "freshWorld =
     \<lparr>files = (\<lambda>p. if p = ''/cache'' then Present 40
                    else if p = ''/tmp/b'' then Present 60
                    else Absent),
      clock = 100,
      trace = []\<rparr>"

definition deniedWorld :: world where
  \<comment> \<open>the cache entry cannot be examined\<close>
  "deniedWorld =
     \<lparr>files = (\<lambda>p. if p = ''/cache'' then Present 40
                    else if p = ''/cache/x'' then Unreadable (OtherError ''permission denied'')
                    else Absent),
      clock = 100,
      trace = []\<rparr>"

definition exLib :: Library where
  "exLib =
     \<lparr>name = ''x'',
      makeHeaders = Some (\<lambda>target includeDir. None),
      cflags = (\<lambda>target outTempDir. [''-I'' @ outTempDir]),
      sourceDir = ''lib/x'',
      librarySources = (\<lambda>target. [''a.c'', ''b.c'']),
      crt1Source = ''crt1.c''\<rparr>"

definition exConfig :: Config where
  \<comment> \<open>no precompiled library: the path names the cache entry\<close>
  "exConfig =
     \<lparr>LibcPath = (\<lambda>nm. (''/cache/'' @ nm, False)),
      Triple = ''arm--none-eabi'',
      CPU = []\<rparr>"

definition precompiledConfig :: Config where
  "precompiledConfig =
     \<lparr>LibcPath = (\<lambda>nm. (''/tinygo/pkg/arm/'' @ nm, True)),
      Triple = ''arm--none-eabi'',
      CPU = []\<rparr>"

definition libCachedWorld :: world where
  \<comment> \<open>the library's sources and a newer cache entry\<close>
  "libCachedWorld =
     \<lparr>files = (\<lambda>p. if p = ''/cache'' then Present 40
                    else if p = ''/cache/x'' then Present 100
                    else if p = ''/tinygo/lib/x/crt1.c'' then Present 50
                    else if p = ''/tinygo/lib/x/a.c'' then Present 50
                    else if p = ''/tinygo/lib/x/b.c'' then Present 50
                    else Absent),
      clock = 200,
      trace = []\<rparr>"

definition tieWorld :: world where
  \<comment> \<open>the cache entry and the only source carry the same time\<close>
  "tieWorld =
     \<lparr>files = (\<lambda>p. if p = ''/cache'' then Present 40
                    else if p = ''/cache/x'' then Present 50
                    else if p = ''/src/a.c'' then Present 50
                    else Absent),
      clock = 200,
      trace = []\<rparr>"

section \<open>Properties of the build cache\<close>

lemma files_logged: "files (logged e w) = files w"
  by (simp add: logged_def)

lemma exHost_cachepath: "Join [goenv exHost ''GOCACHE'', ''x''] = ''/cache/x''"
  by (simp add: exHost_def Join_def Clean_def clean_step_def)

text \<open>
  C9. When nothing exists at the cache path, \<^const>\<open>cacheLoad\<close> answers the empty path and
  no error. The only call it makes is the \<^verbatim>\<open>os.Stat\<close> of the cache path: no source
  file is looked at, whatever the source list is.
\<close>

theorem cacheLoad_no_entry:
  assumes "files w (Join [goenv h ''GOCACHE'', nm]) = Absent"
  shows "cacheLoad h nm srcs w = (logged (EvStat (Join [goenv h ''GOCACHE'', nm])) w, [], None)"
  using assms by (simp add: cacheLoad_def os_Stat_def)

theorem cacheLoad_no_entry_witness:
  "files exWorld (Join [goenv exHost ''GOCACHE'', ''x'']) = Absent \<and>
   cacheLoad exHost ''x'' [''/src/a.c''] exWorld = (logged (EvStat ''/cache/x'') exWorld, [], None)"
proof -
  have a: "files exWorld (Join [goenv exHost ''GOCACHE'', ''x'']) = Absent"
    unfolding exHost_cachepath by (simp add: exWorld_def)
  show ?thesis
    using cacheLoad_no_entry[OF a, of "[''/src/a.c'']"] a unfolding exHost_cachepath by simp
qed

text \<open>
  C8. With an empty source list \<^const>\<open>cacheStore\<close> panics at once and leaves the world as
  it was: no directory is made and nothing is renamed. With a source list that is not
  empty it never panics.
\<close>

theorem cacheStore_empty_sources:
  "cacheStore h tmppath nm [] w = (w, Panics ''cache: no source files'') \<and>
   (srcs \<noteq> [] \<longrightarrow> (\<forall>msg. snd (cacheStore h tmppath nm srcs w) \<noteq> Panics msg))"
  by (simp add: cacheStore_def Let_def split: prod.splits option.splits)

theorem cacheStore_empty_sources_witness:
  "cacheStore exHost ''/cache/x.tmp42'' ''x'' [] exWorld = (exWorld, Panics ''cache: no source files'') \<and>
   [''/src/a.c''] \<noteq> [] \<and>
   (\<forall>msg. snd (cacheStore exHost ''/cache/x.tmp42'' ''x'' [''/src/a.c''] exWorld) \<noteq> Panics msg)"
  using cacheStore_empty_sources[of exHost "''/cache/x.tmp42''" "''x''" exWorld "[''/src/a.c'']"]
  by simp

text \<open>
  C10. For an empty source list \<^const>\<open>cacheTimestamp\<close> answers the zero time, so an entry
  whose modification time is after the zero time is a hit: \<^const>\<open>cacheLoad\<close> answers its
  path, and the only call made is the \<^verbatim>\<open>os.Stat\<close> of the cache path, so the entry is not
  removed.
\<close>

theorem cacheLoad_empty_sources:
  assumes "files w (Join [goenv h ''GOCACHE'', nm]) = Present t" and "After t zeroTime"
  shows "cacheTimestamp [] w' = (w', zeroTime, None) \<and>
         cacheLoad h nm [] w =
           (logged (EvStat (Join [goenv h ''GOCACHE'', nm])) w, Join [goenv h ''GOCACHE'', nm], None)"
  using assms
  by (simp add: cacheLoad_def os_Stat_def cacheTimestamp_def Let_def After_def zeroTime_def)

theorem cacheLoad_empty_sources_witness:
  "files cachedWorld (Join [goenv exHost ''GOCACHE'', ''x'']) = Present 100 \<and>
   After 100 zeroTime \<and>
   cacheTimestamp [] cachedWorld = (cachedWorld, zeroTime, None) \<and>
   cacheLoad exHost ''x'' [] cachedWorld = (logged (EvStat ''/cache/x'') cachedWorld, ''/cache/x'', None)"
proof -
  have a: "files cachedWorld (Join [goenv exHost ''GOCACHE'', ''x'']) = Present 100"
    unfolding exHost_cachepath by (simp add: cachedWorld_def)
  have b: "After 100 zeroTime"
    by (simp add: After_def zeroTime_def)
  show ?thesis
    using cacheLoad_empty_sources[OF a b, of cachedWorld] a b unfolding exHost_cachepath by simp
qed

subsection \<open>The loop of \<^const>\<open>cacheTimestamp\<close>\<close>

lemma loop_all_present:
  assumes "\<forall>s\<in>set ps. files w s = Present (mt s)"
  shows "\<exists>ts. cacheTimestamp_loop ps acc w = (w\<lparr>trace := trace w @ map EvStat ps\<rparr>, ts, None)
           \<and> (ts = acc \<or> ts \<in> mt ` set ps) \<and> (acc = 0 \<and> ps \<noteq> [] \<longrightarrow> ts \<in> mt ` set ps)"
  using assms
proof (induction ps arbitrary: acc w)
  case Nil
  then show ?case by simp
next
  case (Cons p ps)
  let ?w1 = "logged (EvStat p) w"
  have st: "os_Stat p w = (?w1, Inr (mt p))"
    using Cons.prems by (simp add: os_Stat_def)
  have pres: "\<forall>s\<in>set ps. files ?w1 s = Present (mt s)"
    using Cons.prems by (simp add: files_logged)
  have tr: "?w1\<lparr>trace := trace ?w1 @ map EvStat ps\<rparr> = w\<lparr>trace := trace w @ map EvStat (p # ps)\<rparr>"
    by (simp add: logged_def)
  from Cons.IH[OF pres, of "mt p"] obtain t1 where
    t1: "cacheTimestamp_loop ps (mt p) ?w1 = (w\<lparr>trace := trace w @ map EvStat (p # ps)\<rparr>, t1, None)"
        "t1 = mt p \<or> t1 \<in> mt ` set ps"
    unfolding tr by blast
  from Cons.IH[OF pres, of acc] obtain t2 where
    t2: "cacheTimestamp_loop ps acc ?w1 = (w\<lparr>trace := trace w @ map EvStat (p # ps)\<rparr>, t2, None)"
        "t2 = acc \<or> t2 \<in> mt ` set ps" "acc = 0 \<and> ps \<noteq> [] \<longrightarrow> t2 \<in> mt ` set ps"
    unfolding tr by blast
  show ?case
  proof (cases "IsZero acc \<or> Before acc (mt p)")
    case True
    then have "cacheTimestamp_loop (p # ps) acc w = cacheTimestamp_loop ps (mt p) ?w1"
      by (auto simp: st)
    with t1 show ?thesis by auto
  next
    case False
    then have "cacheTimestamp_loop (p # ps) acc w = cacheTimestamp_loop ps acc ?w1"
      by (auto simp: st)
    moreover from False have "acc \<noteq> 0" by (simp add: IsZero_def)
    ultimately show ?thesis using t2 by auto
  qed
qed

lemma Max_insert_absorb:
  fixes a b :: int
  assumes "finite S" and "a \<le> b"
  shows "Max (insert a (insert b S)) = Max (insert b S)"
proof -
  have "b \<le> Max (insert b S)"
    using assms(1) by (intro Max_ge) auto
  then have "a \<le> Max (insert b S)"
    using assms(2) by linarith
  then show ?thesis
    using assms(1) by (simp add: max.absorb2)
qed

text \<open>
  When no source file is stamped with the zero time itself, the loop does return the
  newest modification time.
\<close>

lemma loop_newest:
  assumes "\<forall>s\<in>set ps. files w s = Present (mt s) \<and> \<not> IsZero (mt s)"
  shows "cacheTimestamp_loop ps acc w =
           (w\<lparr>trace := trace w @ map EvStat ps\<rparr>,
            (if IsZero acc then (if ps = [] then acc else Max (mt ` set ps))
             else Max (insert acc (mt ` set ps))),
            None)"
  using assms
proof (induction ps arbitrary: acc w)
  case Nil
  then show ?case by simp
next
  case (Cons p ps)
  let ?w1 = "logged (EvStat p) w"
  have st: "os_Stat p w = (?w1, Inr (mt p))"
    using Cons.prems by (simp add: os_Stat_def)
  have nz: "\<not> IsZero (mt p)"
    using Cons.prems by simp
  have pres: "\<forall>s\<in>set ps. files ?w1 s = Present (mt s) \<and> \<not> IsZero (mt s)"
    using Cons.prems by (simp add: files_logged)
  have tr: "?w1\<lparr>trace := trace ?w1 @ map EvStat ps\<rparr> = w\<lparr>trace := trace w @ map EvStat (p # ps)\<rparr>"
    by (simp add: logged_def)
  note ih = Cons.IH[OF pres, unfolded tr]
  have fin: "finite (mt ` set ps)" by simp
  show ?case
  proof (cases "IsZero acc \<or> Before acc (mt p)")
    case True
    then have "cacheTimestamp_loop (p # ps) acc w = cacheTimestamp_loop ps (mt p) ?w1"
      by (auto simp: st)
    moreover have "Max (insert acc (insert (mt p) (mt ` set ps))) = Max (insert (mt p) (mt ` set ps))"
      if "Before acc (mt p)"
      using that Max_insert_absorb[OF fin, of acc "mt p"] by (simp add: Before_def)
    ultimately show ?thesis using True nz by (auto simp: ih)
  next
    case False
    then have "cacheTimestamp_loop (p # ps) acc w = cacheTimestamp_loop ps acc ?w1"
      by (auto simp: st)
    moreover have "Max (insert acc (insert (mt p) (mt ` set ps))) = Max (insert acc (mt ` set ps))"
      using False Max_insert_absorb[OF fin, of "mt p" acc]
      by (simp add: Before_def insert_commute)
    ultimately show ?thesis using False by (simp add: ih)
  qed
qed

lemma cacheLoad_newest:
  assumes entry: "files w (Join [goenv h ''GOCACHE'', nm]) = Present tc"
      and ne: "srcs \<noteq> []"
      and pres: "\<forall>s\<in>set srcs. files w s = Present (mt s) \<and> \<not> IsZero (mt s)"
  shows "cacheLoad h nm srcs w =
           (let cachepath = Join [goenv h ''GOCACHE'', nm];
                w2 = w\<lparr>trace := trace w @ EvStat cachepath # map EvStat srcs\<rparr>
            in if After tc (Max (mt ` set srcs)) then (w2, cachepath, None)
               else (os_RemoveAll cachepath w2, [], None))"
proof -
  let ?p = "Join [goenv h ''GOCACHE'', nm]"
  let ?w1 = "logged (EvStat ?p) w"
  have st: "os_Stat ?p w = (?w1, Inr tc)"
    using entry by (simp add: os_Stat_def)
  have pres1: "\<forall>s\<in>set srcs. files ?w1 s = Present (mt s) \<and> \<not> IsZero (mt s)"
    using pres by (simp add: files_logged)
  have tr: "?w1\<lparr>trace := trace ?w1 @ map EvStat srcs\<rparr> = w\<lparr>trace := trace w @ EvStat ?p # map EvStat srcs\<rparr>"
    by (simp add: logged_def)
  have "cacheTimestamp srcs ?w1 =
          (w\<lparr>trace := trace w @ EvStat ?p # map EvStat srcs\<rparr>, Max (mt ` set srcs), None)"
    using loop_newest[OF pres1, of zeroTime] ne
    by (simp add: cacheTimestamp_def tr zeroTime_def IsZero_def)
  then show ?thesis
    using st by (simp add: cacheLoad_def Let_def)
qed

lemma os_RemoveAll_removes: "files (os_RemoveAll p w) p = Absent"
  by (simp add: os_RemoveAll_def logged_def)

text \<open>A tie is stale: the entry is removed and the load is a miss.\<close>

lemma cacheLoad_tie:
  "snd (cacheLoad exHost ''x'' [''/src/a.c''] tieWorld) = ([], None) \<and>
   files (fst (cacheLoad exHost ''x'' [''/src/a.c''] tieWorld)) ''/cache/x'' = Absent \<and>
   trace (fst (cacheLoad exHost ''x'' [''/src/a.c''] tieWorld))
     = [EvStat ''/cache/x'', EvStat ''/src/a.c'', EvRemoveAll ''/cache/x'']"
proof -
  have c: "files tieWorld (Join [goenv exHost ''GOCACHE'', ''x'']) = Present 50"
    unfolding exHost_cachepath by (simp add: tieWorld_def)
  have s: "\<forall>s\<in>set [''/src/a.c'']. files tieWorld s = Present 50 \<and> \<not> IsZero 50"
    by (simp add: tieWorld_def IsZero_def)
  show ?thesis
    using cacheLoad_newest[OF c _ s]
    by (simp add: exHost_cachepath After_def Let_def os_RemoveAll_def logged_def tieWorld_def)
qed

lemma cacheTimestamp_zero_stamp:
  assumes "files w a = Present zeroTime" and "files w b = Present tb"
  shows "cacheTimestamp [a, b] w = (w\<lparr>trace := trace w @ [EvStat a, EvStat b]\<rparr>, tb, None)"
  using assms
  by (simp add: cacheTimestamp_def os_Stat_def logged_def IsZero_def zeroTime_def)

text \<open>
  C1. The entry is compared with what \<^const>\<open>cacheTimestamp\<close> answers, and a tie counts as
  stale. That answer is the newest source time when no source is stamped with the zero
  time itself (\<open>cacheLoad_newest\<close>). The loop takes a zero \<^verbatim>\<open>timestamp\<close> for "none yet"
  and overwrites it with the next file's time, even an older one
  (\<open>cacheTimestamp_zero_stamp\<close>). So with a first source at the zero time and a second
  source older than the entry, the entry is returned as a hit and is not removed, however
  the entry compares with the first source.
\<close>

theorem cacheLoad_zero_stamp:
  assumes "files w (Join [goenv h ''GOCACHE'', nm]) = Present tc"
      and "files w a = Present zeroTime" and "files w b = Present tb"
      and "After tc tb"
  shows "cacheLoad h nm [a, b] w =
           (w\<lparr>trace := trace w @ [EvStat (Join [goenv h ''GOCACHE'', nm]), EvStat a, EvStat b]\<rparr>,
            Join [goenv h ''GOCACHE'', nm], None)"
  using assms
  by (simp add: cacheLoad_def cacheTimestamp_def os_Stat_def logged_def Let_def IsZero_def
        zeroTime_def)

text \<open>
  The sources are stamped 0 and -5 and the entry -3: the newest source is newer than the
  entry, and the entry is a hit and stays in place.
\<close>

theorem cacheLoad_zero_stamp_witness:
  "files backdatedWorld ''/cache/x'' = Present (- 3) \<and>
   files backdatedWorld ''/src/a.c'' = Present 0 \<and>
   files backdatedWorld ''/src/b.c'' = Present (- 5) \<and>
   snd (cacheLoad exHost ''x'' [''/src/a.c'', ''/src/b.c''] backdatedWorld) = (''/cache/x'', None) \<and>
   files (fst (cacheLoad exHost ''x'' [''/src/a.c'', ''/src/b.c''] backdatedWorld)) ''/cache/x''
     = Present (- 3)"
proof -
  have c: "files backdatedWorld (Join [goenv exHost ''GOCACHE'', ''x'']) = Present (- 3)"
    unfolding exHost_cachepath by (simp add: backdatedWorld_def)
  have a: "files backdatedWorld ''/src/a.c'' = Present zeroTime"
    by (simp add: backdatedWorld_def zeroTime_def)
  have b: "files backdatedWorld ''/src/b.c'' = Present (- 5)"
    by (simp add: backdatedWorld_def)
  have n: "After (- 3) (- 5)"
    by (simp add: After_def)
  show ?thesis
    using cacheLoad_zero_stamp[OF c a b n] a b c
    by (simp add: exHost_cachepath zeroTime_def)
qed

subsection \<open>Store, then load\<close>

lemma cacheStore_success:
  assumes "cacheStore h tmppath nm srcs w = (w', Returns (p, None))"
  shows "srcs \<noteq> [] \<and> p = Join [goenv h ''GOCACHE'', nm]"
  using assms
  by (auto simp: cacheStore_def Let_def split: if_splits prod.splits option.splits)

text \<open>
  What a successful \<^const>\<open>cacheStore\<close> does to the file system: the entry that was at the
  temporary path is at the returned path with its time, and a path that is neither the
  cache directory nor at or below one of the two renamed paths is as it was.
\<close>

lemma cacheStore_places_entry:
  assumes store: "cacheStore h tmppath nm srcs w = (w', Returns (p, None))"
      and tmp: "files w tmppath = Present tc"
  shows "files w' p = Present tc"
proof -
  let ?dir = "goenv h ''GOCACHE''"
  from cacheStore_success[OF store] have ne: "srcs \<noteq> []" and p: "p = Join [?dir, nm]"
    by simp_all
  obtain w1 where mk: "os_MkdirAll h ?dir w = (w1, None)"
    and rn: "os_Rename h tmppath p w1 = (w', None)"
    using store ne unfolding p
    by (auto simp: cacheStore_def Let_def split: prod.splits option.splits)
  have tmp1: "files w1 tmppath = Present tc"
    using mk tmp
    by (cases "tmppath = ?dir")
       (auto simp: os_MkdirAll_def logged_def split: option.splits node.splits)
  show ?thesis
    using rn tmp1
    by (auto simp: os_Rename_def logged_def split: option.splits node.splits)
qed

lemma cacheStore_keeps_others:
  assumes store: "cacheStore h tmppath nm srcs w = (w', Returns (p, None))"
      and "s \<noteq> goenv h ''GOCACHE''"
      and "s \<noteq> p" and "\<not> HasPrefix s (p @ ''/'')"
      and "s \<noteq> tmppath" and "\<not> HasPrefix s (tmppath @ ''/'')"
  shows "files w' s = files w s"
proof -
  let ?dir = "goenv h ''GOCACHE''"
  from cacheStore_success[OF store] have ne: "srcs \<noteq> []" and p: "p = Join [?dir, nm]"
    by simp_all
  obtain w1 where mk: "os_MkdirAll h ?dir w = (w1, None)"
    and rn: "os_Rename h tmppath p w1 = (w', None)"
    using store ne unfolding p
    by (auto simp: cacheStore_def Let_def split: prod.splits option.splits)
  have "files w1 s = files w s"
    using mk assms(2)
    by (auto simp: os_MkdirAll_def logged_def split: option.splits node.splits)
  moreover have "files w' s = files w1 s"
    using rn assms(3-6)
    by (auto simp: os_Rename_def logged_def split: option.splits node.splits)
  ultimately show ?thesis by simp
qed

text \<open>
  C7. After a \<^const>\<open>cacheStore\<close> that returned a path, the entry that was at the temporary
  path is at that path with its modification time. When the sources are stamped as they
  were and that time is after each of theirs, a \<^const>\<open>cacheLoad\<close> of the same name and
  sources returns the same path: one \<^verbatim>\<open>os.Stat\<close> call for the entry and one per source,
  and nothing else.
\<close>

theorem store_then_load_hits:
  assumes store: "cacheStore h tmppath nm srcs w = (w', Returns (p, None))"
      and tmp: "files w tmppath = Present tc"
      and newer: "\<forall>s\<in>set srcs. files w' s = files w s \<and> (\<exists>t. files w s = Present t \<and> Before t tc)"
  shows "files w' p = Present tc \<and>
         cacheLoad h nm srcs w' = (w'\<lparr>trace := trace w' @ EvStat p # map EvStat srcs\<rparr>, p, None)"
proof -
  from cacheStore_success[OF store] have ne: "srcs \<noteq> []" and p: "p = Join [goenv h ''GOCACHE'', nm]"
    by simp_all
  have entry: "files w' p = Present tc"
    by (rule cacheStore_places_entry[OF store tmp])
  let ?w1 = "logged (EvStat p) w'"
  let ?mt = "\<lambda>s. case files w' s of Present t \<Rightarrow> t | _ \<Rightarrow> zeroTime"
  have st: "os_Stat p w' = (?w1, Inr tc)"
    using entry by (simp add: os_Stat_def)
  have pres: "\<forall>s\<in>set srcs. files ?w1 s = Present (?mt s)"
    using newer by (auto simp: files_logged)
  have older: "\<forall>t\<in>?mt ` set srcs. t < tc"
    using newer by (auto simp: Before_def)
  from loop_all_present[OF pres, of 0] ne obtain ts where
    ts: "cacheTimestamp srcs ?w1 = (?w1\<lparr>trace := trace ?w1 @ map EvStat srcs\<rparr>, ts, None)"
    and mem: "ts \<in> ?mt ` set srcs"
    by (auto simp: cacheTimestamp_def zeroTime_def)
  from mem older have "After tc ts"
    by (auto simp: After_def)
  moreover have "?w1\<lparr>trace := trace ?w1 @ map EvStat srcs\<rparr> = w'\<lparr>trace := trace w' @ EvStat p # map EvStat srcs\<rparr>"
    by (simp add: logged_def)
  ultimately have "cacheLoad h nm srcs w' = (w'\<lparr>trace := trace w' @ EvStat p # map EvStat srcs\<rparr>, p, None)"
    using st ts by (simp add: cacheLoad_def p[symmetric])
  with entry show ?thesis by simp
qed

lemmas ex_store_defs =
  cacheStore_def os_MkdirAll_def os_Rename_def logged_def exHost_def exWorld_def
  Join_def Clean_def clean_step_def Let_def HasPrefix_def

theorem store_then_load_hits_witness:
  "snd (cacheStore exHost ''/cache/x.tmp42'' ''x'' [''/src/a.c''] exWorld) = Returns (''/cache/x'', None) \<and>
   files exWorld ''/cache/x.tmp42'' = Present 100 \<and>
   files exWorld ''/src/a.c'' = Present 50 \<and>
   files (fst (cacheStore exHost ''/cache/x.tmp42'' ''x'' [''/src/a.c''] exWorld)) ''/src/a.c'' = Present 50 \<and>
   files (fst (cacheStore exHost ''/cache/x.tmp42'' ''x'' [''/src/a.c''] exWorld)) ''/cache/x'' = Present 100 \<and>
   snd (cacheLoad exHost ''x'' [''/src/a.c'']
          (fst (cacheStore exHost ''/cache/x.tmp42'' ''x'' [''/src/a.c''] exWorld)))
     = (''/cache/x'', None)"
proof -
  let ?w' = "fst (cacheStore exHost ''/cache/x.tmp42'' ''x'' [''/src/a.c''] exWorld)"
  have r: "snd (cacheStore exHost ''/cache/x.tmp42'' ''x'' [''/src/a.c''] exWorld) = Returns (''/cache/x'', None)"
    by (simp add: ex_store_defs)
  then have a: "cacheStore exHost ''/cache/x.tmp42'' ''x'' [''/src/a.c''] exWorld = (?w', Returns (''/cache/x'', None))"
    by (simp add: prod_eq_iff)
  have b: "files exWorld ''/cache/x.tmp42'' = Present 100"
    by (simp add: exWorld_def)
  have s0: "files exWorld ''/src/a.c'' = Present 50"
    by (simp add: exWorld_def)
  have s: "files ?w' ''/src/a.c'' = Present 50"
    by (simp add: ex_store_defs)
  have c: "\<forall>s\<in>set [''/src/a.c'']. files ?w' s = files exWorld s \<and> (\<exists>t. files exWorld s = Present t \<and> Before t 100)"
    using s s0 by (simp add: Before_def)
  show ?thesis
    using store_then_load_hits[OF a b c] r b s0 s by simp
qed

section \<open>Properties of the library builder\<close>

lemmas path_defs = Join_def Clean_def clean_step_def Base_def Dir_def

lemmas ex_defs = exHost_def exLib_def exConfig_def precompiledConfig_def

lemma compileLoop_eq:
  "compileLoop l dir args hdrs paths (objs, deps) =
     (objs @ map (objectFor l dir) paths, deps @ map (compileJobFor l dir args hdrs) paths)"
  by (induction paths arbitrary: objs deps) (simp_all add: Let_def objectFor_def compileJobFor_def)

lemma libraryJob_eq:
  "libraryJob h l target outname outtmpdir dir args =
     CompileJob (''ar '' @ name l @ ''/lib.a'') (Join [goenv h ''GOCACHE'', outname, ''lib.a''])
       (map (compileJobFor l dir args (headerJobs l target outtmpdir)) (librarySources l target)
          @ crt1Jobs l outtmpdir args (headerJobs l target outtmpdir))
       (Some (ArchiveRun outtmpdir (map (objectFor l dir) (librarySources l target)) outname l target))"
  by (simp add: libraryJob_def compileLoop_eq Let_def headerJobs_def crt1Jobs_def)

lemma load_built:
  assumes "load h l config tmpdir w = (w', Inr job)" and "run job \<noteq> None"
  shows "\<exists>outtmpdir.
           tempDirResult h (goenv h ''GOCACHE'') (Base (fst (LibcPath config (name l))) @ ''.tmp*'') = Inr outtmpdir \<and>
           job = libraryJob h l (Triple config) (Base (fst (LibcPath config (name l)))) outtmpdir
                   (Join [tmpdir, ''build-lib-'' @ name l])
                   (libraryArgs l (Triple config) (CPU config) outtmpdir
                      (Join [tmpdir, ''build-lib-'' @ name l]) (Join [osTempDir h, ''tinygo-'' @ name l]))"
  using assms
  by (auto simp: load_def Let_def dummyCompileJob_def ioutil_TempDir_def
           split: prod.splits if_splits sum.splits option.splits)


lemma compileJobFor_sel:
  "isCompile (compileJobFor l dir args hdrs p)"
  "dependencies (compileJobFor l dir args hdrs p) = hdrs"
  "compiledSource (compileJobFor l dir args hdrs p) = Join [sourceDir l, p]"
  "compiledObject (compileJobFor l dir args hdrs p) = objectFor l dir p"
  "compilerFlags (compileJobFor l dir args hdrs p) = args"
  by (simp_all add: compileJobFor_def isCompile_def compiledSource_def compiledObject_def
        compilerFlags_def)

lemma crt1Jobs_sel:
  "\<forall>j\<in>set (crt1Jobs l outtmpdir args hdrs).
     isCompile j \<and> dependencies j = hdrs \<and> compilerFlags j = args \<and>
     compiledSource j = Join [sourceDir l, crt1Source l] \<and>
     compiledObject j = Join [outtmpdir, ''crt1.o'']"
  by (simp add: crt1Jobs_def isCompile_def compiledSource_def compiledObject_def compilerFlags_def)

lemma crt1Jobs_sources:
  "map compiledSource (crt1Jobs l outtmpdir args hdrs) =
     (if crt1Source l \<noteq> [] then [Join [sourceDir l, crt1Source l]] else [])"
  by (simp add: crt1Jobs_def compiledSource_def)

lemma crt1Jobs_length:
  "length (crt1Jobs l outtmpdir args hdrs) = (if crt1Source l \<noteq> [] then 1 else 0)"
  by (simp add: crt1Jobs_def)

lemma headerJobs_shape:
  "if makeHeaders l \<noteq> None
   then \<exists>hj. headerJobs l target outtmpdir = [hj] \<and> isHeaders hj \<and> dependencies hj = []
   else headerJobs l target outtmpdir = []"
  by (simp add: headerJobs_def isHeaders_def)

text \<open>
  C6. A job that \<^const>\<open>load\<close> returns with an action is the archive job. It depends on one
  compile job per library source, in order, and on one more for crt1 when
  \<^const>\<open>crt1Source\<close> is set, and on nothing else. Every compile job depends on the one
  header job when \<^const>\<open>makeHeaders\<close> is set and on nothing otherwise, and all of them
  have the same dependencies.
\<close>

theorem load_miss_graph:
  assumes "load h l config tmpdir w = (w', Inr job)" and "run job \<noteq> None"
  shows "isArchive job \<and>
         length (dependencies job) =
           length (librarySources l (Triple config)) + (if crt1Source l \<noteq> [] then 1 else 0) \<and>
         map compiledSource (dependencies job) =
           map (\<lambda>p. Join [sourceDir l, p]) (librarySources l (Triple config)) @
             (if crt1Source l \<noteq> [] then [Join [sourceDir l, crt1Source l]] else []) \<and>
         (\<forall>j\<in>set (dependencies job).
            isCompile j \<and>
            (if makeHeaders l \<noteq> None
             then \<exists>hj. dependencies j = [hj] \<and> isHeaders hj \<and> dependencies hj = []
             else dependencies j = [])) \<and>
         (\<forall>j\<in>set (dependencies job). \<forall>k\<in>set (dependencies job). dependencies j = dependencies k)"
proof -
  from load_built[OF assms] obtain outtmpdir where
    job: "job = libraryJob h l (Triple config) (Base (fst (LibcPath config (name l)))) outtmpdir
                   (Join [tmpdir, ''build-lib-'' @ name l])
                   (libraryArgs l (Triple config) (CPU config) outtmpdir
                      (Join [tmpdir, ''build-lib-'' @ name l]) (Join [osTempDir h, ''tinygo-'' @ name l]))"
    by blast
  let ?hdrs = "headerJobs l (Triple config) outtmpdir"
  have deps: "\<forall>j\<in>set (dependencies job). isCompile j \<and> dependencies j = ?hdrs"
    unfolding job libraryJob_eq using crt1Jobs_sel by (auto simp: compileJobFor_sel)
  have a: "isArchive job"
    unfolding job libraryJob_eq by (simp add: isArchive_def)
  have b: "length (dependencies job) =
           length (librarySources l (Triple config)) + (if crt1Source l \<noteq> [] then 1 else 0)"
    unfolding job libraryJob_eq by (simp add: crt1Jobs_length)
  have c: "map compiledSource (dependencies job) =
           map (\<lambda>p. Join [sourceDir l, p]) (librarySources l (Triple config)) @
             (if crt1Source l \<noteq> [] then [Join [sourceDir l, crt1Source l]] else [])"
    unfolding job libraryJob_eq
    by (simp add: compileJobFor_sel crt1Jobs_sources)
  have d: "\<forall>j\<in>set (dependencies job).
            isCompile j \<and>
            (if makeHeaders l \<noteq> None
             then \<exists>hj. dependencies j = [hj] \<and> isHeaders hj \<and> dependencies hj = []
             else dependencies j = [])"
    using deps headerJobs_shape[of l "Triple config" outtmpdir] by auto
  have e: "\<forall>j\<in>set (dependencies job). \<forall>k\<in>set (dependencies job). dependencies j = dependencies k"
    using deps by simp
  from a b c d e show ?thesis by blast
qed

text \<open>
  C5. The flag list is the base flags, then \<^verbatim>\<open>-mcpu=\<close> when the CPU is not empty, then
  the flags of the table row whose prefix the triple has. A triple with none of the
  prefixes gets no row: the base flags and the CPU flag only, and the base flags alone
  when the CPU is empty. The list is computed for every triple; nothing here can fail.
\<close>

theorem libraryArgs_flags:
  "libraryArgs l target cpu outtmpdir dir remapDir =
     baseFlags l target outtmpdir dir remapDir @ cpuFlag cpu @ abiFlags target \<and>
   (\<not> HasPrefix target ''arm'' \<and> \<not> HasPrefix target ''thumb'' \<and>
    \<not> HasPrefix target ''riscv32-'' \<and> \<not> HasPrefix target ''riscv64-''
      \<longrightarrow> libraryArgs l target cpu outtmpdir dir remapDir =
            baseFlags l target outtmpdir dir remapDir @ cpuFlag cpu \<and>
          (cpu = [] \<longrightarrow> libraryArgs l target cpu outtmpdir dir remapDir =
            baseFlags l target outtmpdir dir remapDir))"
  by (simp add: libraryArgs_def baseFlags_def cpuFlag_def abiFlags_def Let_def)

theorem libraryArgs_flags_witness:
  "\<not> HasPrefix ''wasm32-wasi'' ''arm'' \<and> \<not> HasPrefix ''wasm32-wasi'' ''thumb'' \<and>
   \<not> HasPrefix ''wasm32-wasi'' ''riscv32-'' \<and> \<not> HasPrefix ''wasm32-wasi'' ''riscv64-'' \<and>
   libraryArgs exLib ''wasm32-wasi'' [] ''/o'' ''/d'' ''/r'' =
     [''-I/o'', ''-c'', ''-Oz'', ''-g'', ''-ffunction-sections'', ''-fdata-sections'',
      ''-Wno-macro-redefined'', ''--target=wasm32-wasi'', ''-fdebug-prefix-map=/d=/r'']"
proof -
  have n: "\<not> HasPrefix ''wasm32-wasi'' ''arm'' \<and> \<not> HasPrefix ''wasm32-wasi'' ''thumb'' \<and>
           \<not> HasPrefix ''wasm32-wasi'' ''riscv32-'' \<and> \<not> HasPrefix ''wasm32-wasi'' ''riscv64-''"
    by (simp add: HasPrefix_def)
  have b: "baseFlags exLib ''wasm32-wasi'' ''/o'' ''/d'' ''/r'' =
     [''-I/o'', ''-c'', ''-Oz'', ''-g'', ''-ffunction-sections'', ''-fdata-sections'',
      ''-Wno-macro-redefined'', ''--target=wasm32-wasi'', ''-fdebug-prefix-map=/d=/r'']"
    by (simp add: baseFlags_def exLib_def)
  have "libraryArgs exLib ''wasm32-wasi'' [] ''/o'' ''/d'' ''/r'' =
          baseFlags exLib ''wasm32-wasi'' ''/o'' ''/d'' ''/r''"
    using libraryArgs_flags[of exLib "''wasm32-wasi''" "[]" "''/o''" "''/d''" "''/r''"] n
    by blast
  with n b show ?thesis by simp
qed

lemma load_compile_flags:
  assumes "load h l config tmpdir w = (w', Inr job)" and "run job \<noteq> None"
  shows "\<exists>outtmpdir. \<forall>j\<in>set (dependencies job).
           compilerFlags j =
             libraryArgs l (Triple config) (CPU config) outtmpdir
               (Join [tmpdir, ''build-lib-'' @ name l]) (Join [osTempDir h, ''tinygo-'' @ name l])"
proof -
  from load_built[OF assms] obtain outtmpdir where
    job: "job = libraryJob h l (Triple config) (Base (fst (LibcPath config (name l)))) outtmpdir
                   (Join [tmpdir, ''build-lib-'' @ name l])
                   (libraryArgs l (Triple config) (CPU config) outtmpdir
                      (Join [tmpdir, ''build-lib-'' @ name l]) (Join [osTempDir h, ''tinygo-'' @ name l]))"
    by blast
  show ?thesis
    unfolding job libraryJob_eq using crt1Jobs_sel by (intro exI[of _ outtmpdir]) (auto simp: compileJobFor_sel)
qed

lemma runJobs_dummy: "runJobs h (dummyCompileJob p) w = (w, Returns None)"
  by (simp add: runJobs_def dummyCompileJob_def)

text \<open>
  C2. When \<^const>\<open>cacheLoad\<close> returns an error, the test \<^verbatim>\<open>path != "" || err != nil\<close> in
  \<^const>\<open>load\<close> takes the branch of a cache hit: \<^const>\<open>load\<close> returns a pass-through job and
  no error, and \<^const>\<open>Load\<close> returns a directory and no error. The error is lost.
\<close>

theorem load_drops_cache_error:
  assumes "LibcPath config (name l) = (outdir, False)"
      and "cacheLoad h (Base outdir) (sourcePaths h l (Triple config)) w = (w1, p, Some err)"
  shows "load h l config tmpdir w = (w1, Inr (dummyCompileJob (Join [p, ''lib.a''])))
         \<and> Load h l config tmpdir w = (w1, Returns (Dir (Join [p, ''lib.a'']), None))"
  using assms by (simp add: Load_def load_def Let_def runJobs_dummy) (simp add: dummyCompileJob_def)

text \<open>
  Here the cache entry cannot be examined. The caller is told that the library is in the
  directory \<^verbatim>\<open>.\<close> and sees no error.
\<close>

theorem load_drops_cache_error_witness:
  "LibcPath exConfig (name exLib) = (''/cache/x'', False) \<and>
   snd (cacheLoad exHost ''x'' (sourcePaths exHost exLib ''arm--none-eabi'') deniedWorld)
     = ([], Some (OtherError ''permission denied'')) \<and>
   snd (load exHost exLib exConfig ''/tmp/b'' deniedWorld) = Inr (dummyCompileJob ''lib.a'') \<and>
   snd (Load exHost exLib exConfig ''/tmp/b'' deniedWorld) = Returns (''.'', None)"
proof -
  let ?r = "cacheLoad exHost ''x'' (sourcePaths exHost exLib ''arm--none-eabi'') deniedWorld"
  have a: "LibcPath exConfig (name exLib) = (''/cache/x'', False)"
    by (simp add: exConfig_def exLib_def)
  have r: "snd ?r = ([], Some (OtherError ''permission denied''))"
    by (simp add: cacheLoad_def os_Stat_def deniedWorld_def exHost_def path_defs Let_def)
  have b: "cacheLoad exHost (Base ''/cache/x'') (sourcePaths exHost exLib (Triple exConfig)) deniedWorld
             = (fst ?r, [], Some (OtherError ''permission denied''))"
    using r by (simp add: prod_eq_iff exConfig_def path_defs)
  have j: "Join [[], ''lib.a''] = ''lib.a''" "Dir ''lib.a'' = ''.''"
    by (simp_all add: path_defs)
  show ?thesis
    using load_drops_cache_error[OF a b, of "''/tmp/b''"] a r by (simp add: j)
qed

text \<open>
  C3. With a precompiled library \<^const>\<open>load\<close> makes no call and returns a pass-through job
  whose result is the path the configuration gave; no compile job is built.
  \<^const>\<open>Load\<close> then returns \<^verbatim>\<open>filepath.Dir\<close> of that path, not the path.
\<close>

theorem Load_precompiled:
  assumes "LibcPath config (name l) = (outdir, True)"
  shows "load h l config tmpdir w = (w, Inr (dummyCompileJob outdir)) \<and>
         Load h l config tmpdir w = (w, Returns (Dir outdir, None))"
  using assms by (simp add: Load_def load_def runJobs_dummy) (simp add: dummyCompileJob_def)

text \<open>For a precompiled library in a directory of its own, that is the parent directory.\<close>

theorem Load_precompiled_witness:
  "LibcPath precompiledConfig (name exLib) = (''/tinygo/pkg/arm/x'', True) \<and>
   load exHost exLib precompiledConfig ''/tmp/b'' freshWorld
     = (freshWorld, Inr (dummyCompileJob ''/tinygo/pkg/arm/x'')) \<and>
   Load exHost exLib precompiledConfig ''/tmp/b'' freshWorld
     = (freshWorld, Returns (''/tinygo/pkg/arm'', None))"
proof -
  have a: "LibcPath precompiledConfig (name exLib) = (''/tinygo/pkg/arm/x'', True)"
    by (simp add: precompiledConfig_def exLib_def)
  have d: "Dir ''/tinygo/pkg/arm/x'' = ''/tinygo/pkg/arm''"
    by (simp add: path_defs)
  show ?thesis
    using Load_precompiled[OF a, of exHost "''/tmp/b''" freshWorld] a by (simp add: d)
qed

text \<open>
  On a cache hit the job's result is \<^verbatim>\<open>lib.a\<close> inside the entry, and \<^const>\<open>Load\<close> returns
  the entry's directory.
\<close>

lemma Load_cache_hit:
  "snd (Load exHost exLib exConfig ''/tmp/b'' libCachedWorld) = Returns (''/cache/x'', None)"
  by (simp add: Load_def load_def cacheLoad_def cacheTimestamp_def os_Stat_def logged_def
        libCachedWorld_def ex_defs path_defs Let_def runJobs_dummy sourcePaths_def fullPath_def
        IsZero_def Before_def After_def zeroTime_def dummyCompileJob_def runJobs_def)

lemmas load_eval_defs =
  load_def cacheLoad_def os_Stat_def logged_def ioutil_TempDir_def os_Mkdir_def
  libraryJob_def libraryArgs_def HasPrefix_def freshWorld_def ex_defs path_defs Let_def
  sourcePaths_def fullPath_def

lemmas run_eval_defs =
  Load_def runJobs_def runCCompiler_def makeArchive_def cacheStore_def os_MkdirAll_def
  os_Rename_def

lemma exJob_eq:
  "snd (load exHost exLib exConfig ''/tmp/b'' freshWorld) =
   Inr (libraryJob exHost exLib ''arm--none-eabi'' ''x'' ''/cache/x.tmp42'' ''/tmp/b/build-lib-x''
         (libraryArgs exLib ''arm--none-eabi'' [] ''/cache/x.tmp42'' ''/tmp/b/build-lib-x'' ''/tmp/tinygo-x''))"
  by (simp add: load_def cacheLoad_def os_Stat_def logged_def ioutil_TempDir_def os_Mkdir_def
       freshWorld_def exHost_def exConfig_def path_defs Let_def exLib_def)

lemma exJob_load:
  "load exHost exLib exConfig ''/tmp/b'' freshWorld =
     (fst (load exHost exLib exConfig ''/tmp/b'' freshWorld),
      Inr (projr (snd (load exHost exLib exConfig ''/tmp/b'' freshWorld))))"
  by (simp add: prod_eq_iff exJob_eq)

lemma exJob_run:
  "run (projr (snd (load exHost exLib exConfig ''/tmp/b'' freshWorld))) \<noteq> None"
  by (simp add: exJob_eq libraryJob_eq)

text \<open>The graph built for a library of two sources with crt1 and headers.\<close>

theorem load_miss_graph_witness:
  "isArchive (projr (snd (load exHost exLib exConfig ''/tmp/b'' freshWorld))) \<and>
   length (dependencies (projr (snd (load exHost exLib exConfig ''/tmp/b'' freshWorld)))) = 3 \<and>
   map compiledSource (dependencies (projr (snd (load exHost exLib exConfig ''/tmp/b'' freshWorld))))
     = [''lib/x/a.c'', ''lib/x/b.c'', ''lib/x/crt1.c'']"
  using load_miss_graph[OF exJob_load exJob_run]
  by (simp add: exLib_def exConfig_def path_defs)

text \<open>
  C4, as stated, fails. The library has two sources and a crt1 source. Three compile
  jobs run and ask for three objects, the third being \<^verbatim>\<open>crt1.o\<close> in the temporary output
  directory; the archiver is called once, with the first two objects only.
\<close>

theorem archive_omits_crt1:
  "map compiledObject (dependencies (projr (snd (load exHost exLib exConfig ''/tmp/b'' freshWorld))))
     = [''/tmp/b/build-lib-x/a.c.o'', ''/tmp/b/build-lib-x/b.c.o'', ''/cache/x.tmp42/crt1.o''] \<and>
   map last (compilerCalls (trace (fst (Load exHost exLib exConfig ''/tmp/b'' freshWorld))))
     = [''lib/x/a.c'', ''lib/x/b.c'', ''lib/x/crt1.c''] \<and>
   archiverCalls (trace (fst (Load exHost exLib exConfig ''/tmp/b'' freshWorld)))
     = [(''/cache/x.tmp42/lib.a'', [''/tmp/b/build-lib-x/a.c.o'', ''/tmp/b/build-lib-x/b.c.o''])]"
  by (simp add: run_eval_defs load_eval_defs compiledObject_def)

text \<open>
  C4, amended. The action of the archive job calls the archiver on the objects of the
  compile jobs of the library sources, in source order, to make \<^verbatim>\<open>lib.a\<close> in the directory
  that \<^verbatim>\<open>ioutil.TempDir\<close> made. The crt1 job, which comes after them, writes \<^verbatim>\<open>crt1.o\<close>
  into that directory and its object is not added to the list. When the archiver fails
  the action returns the wrapped error; otherwise it calls \<^const>\<open>cacheStore\<close> with that
  directory and returns what it returns.
\<close>

theorem archive_action:
  assumes "load h l config tmpdir w = (w', Inr job)" and "run job = Some a"
  shows "\<exists>outtmpdir objs.
           tempDirResult h (goenv h ''GOCACHE'') (Base (fst (LibcPath config (name l))) @ ''.tmp*'')
             = Inr outtmpdir \<and>
           objs = map compiledObject
                    (take (length (librarySources l (Triple config))) (dependencies job)) \<and>
           (\<forall>j\<in>set (drop (length (librarySources l (Triple config))) (dependencies job)).
              compiledObject j = Join [outtmpdir, ''crt1.o'']) \<and>
           (\<forall>w0. runAction h a w0 =
              (case archiverFails h (Join [outtmpdir, ''lib.a'']) objs of
                 Some err \<Rightarrow>
                   (logged (EvArchiver (Join [outtmpdir, ''lib.a'']) objs) w0,
                    Returns (Some (ArchiveError (Triple config) err)))
               | None \<Rightarrow>
                   (case cacheStore h outtmpdir (Base (fst (LibcPath config (name l))))
                           (sourcePaths h l (Triple config))
                           (logged (EvArchiver (Join [outtmpdir, ''lib.a'']) objs) w0) of
                      (w2, Panics msg) \<Rightarrow> (w2, Panics msg)
                    | (w2, Returns (p, err)) \<Rightarrow> (w2, Returns err))))"
proof -
  from assms(2) have "run job \<noteq> None" by simp
  from load_built[OF assms(1) this] obtain outtmpdir where
    tmp: "tempDirResult h (goenv h ''GOCACHE'') (Base (fst (LibcPath config (name l))) @ ''.tmp*'')
             = Inr outtmpdir" and
    job: "job = libraryJob h l (Triple config) (Base (fst (LibcPath config (name l)))) outtmpdir
                   (Join [tmpdir, ''build-lib-'' @ name l])
                   (libraryArgs l (Triple config) (CPU config) outtmpdir
                      (Join [tmpdir, ''build-lib-'' @ name l]) (Join [osTempDir h, ''tinygo-'' @ name l]))"
    by blast
  let ?dir = "Join [tmpdir, ''build-lib-'' @ name l]"
  let ?srcs = "librarySources l (Triple config)"
  let ?objs = "map (objectFor l ?dir) ?srcs"
  have a: "a = ArchiveRun outtmpdir ?objs (Base (fst (LibcPath config (name l)))) l (Triple config)"
    using assms(2) unfolding job libraryJob_eq by simp
  have objs: "?objs = map compiledObject (take (length ?srcs) (dependencies job))"
    unfolding job libraryJob_eq by (simp add: compileJobFor_sel)
  have crt: "\<forall>j\<in>set (drop (length ?srcs) (dependencies job)). compiledObject j = Join [outtmpdir, ''crt1.o'']"
    unfolding job libraryJob_eq using crt1Jobs_sel by simp
  have run: "\<forall>w0. runAction h a w0 =
              (case archiverFails h (Join [outtmpdir, ''lib.a'']) ?objs of
                 Some err \<Rightarrow>
                   (logged (EvArchiver (Join [outtmpdir, ''lib.a'']) ?objs) w0,
                    Returns (Some (ArchiveError (Triple config) err)))
               | None \<Rightarrow>
                   (case cacheStore h outtmpdir (Base (fst (LibcPath config (name l))))
                           (sourcePaths h l (Triple config))
                           (logged (EvArchiver (Join [outtmpdir, ''lib.a'']) ?objs) w0) of
                      (w2, Panics msg) \<Rightarrow> (w2, Panics msg)
                    | (w2, Returns (p, err)) \<Rightarrow> (w2, Returns err)))"
    unfolding a by (simp add: makeArchive_def split: option.splits)
  show ?thesis
    using tmp objs[symmetric] crt run by (intro exI[of _ outtmpdir] exI[of _ ?objs]) simp
qed


lemma exJob_action:
  "run (projr (snd (load exHost exLib exConfig ''/tmp/b'' freshWorld)))
     = Some (the (run (projr (snd (load exHost exLib exConfig ''/tmp/b'' freshWorld)))))"
  using exJob_run by simp

theorem archive_action_witness:
  "\<exists>outtmpdir objs.
     tempDirResult exHost ''/cache'' ''x.tmp*'' = Inr outtmpdir \<and>
     objs = map compiledObject
              (take 2 (dependencies (projr (snd (load exHost exLib exConfig ''/tmp/b'' freshWorld))))) \<and>
     (\<forall>j\<in>set (drop 2 (dependencies (projr (snd (load exHost exLib exConfig ''/tmp/b'' freshWorld))))).
        compiledObject j = Join [outtmpdir, ''crt1.o''])"
proof -
  from archive_action[OF exJob_load exJob_action] obtain outtmpdir objs where
    "tempDirResult exHost (goenv exHost ''GOCACHE'')
        (Base (fst (LibcPath exConfig (name exLib))) @ ''.tmp*'') = Inr outtmpdir"
    "objs = map compiledObject
              (take (length (librarySources exLib (Triple exConfig)))
                 (dependencies (projr (snd (load exHost exLib exConfig ''/tmp/b'' freshWorld)))))"
    "\<forall>j\<in>set (drop (length (librarySources exLib (Triple exConfig)))
                 (dependencies (projr (snd (load exHost exLib exConfig ''/tmp/b'' freshWorld))))).
        compiledObject j = Join [outtmpdir, ''crt1.o'']"
    by blast
  moreover have "goenv exHost ''GOCACHE'' = ''/cache''"
    by (simp add: exHost_def)
  moreover have "Base (fst (LibcPath exConfig (name exLib))) @ ''.tmp*'' = ''x.tmp*''"
    by (simp add: exConfig_def exLib_def path_defs)
  moreover have "length (librarySources exLib (Triple exConfig)) = 2"
    by (simp add: exLib_def)
  ultimately show ?thesis by auto
qed

end
